theory Spec2Isabelle
  imports Complex_Main
begin

section \<open>Python values and exceptions\<close>

text \<open>
  What \<^verbatim>\<open>json.loads\<close> returns: \<^verbatim>\<open>None\<close>, a bool, a number, a str, a list or a dict.
  A dict is kept as its list of entries in insertion order; the keys of a Python dict are
  distinct. Numbers are exact rationals: the rounding error of binary floating point is
  outside this model, and every concrete number used below is a small integer, on which
  the two agree.
\<close>

datatype json =
    JNull
  | JBool bool
  | JNum rat
  | JStr string
  | JArr "json list"
  | JObj "(string \<times> json) list"

text \<open>The exceptions that the modelled code raises or lets through.\<close>

datatype exn =
    KeyError string
  | TypeError
  | AttributeError
  | ValueError string
  | JSONDecodeError
  | ValidationError
  | UnboundLocalError
  | HTTPException nat string
  | ProviderError string

text \<open>\<^verbatim>\<open>except ValueError\<close> catches the class and its subclasses:
  \<^verbatim>\<open>json.JSONDecodeError\<close> and pydantic's \<^verbatim>\<open>ValidationError\<close>.\<close>

fun is_ValueError :: "exn \<Rightarrow> bool" where
  "is_ValueError (ValueError m) = True"
| "is_ValueError JSONDecodeError = True"
| "is_ValueError ValidationError = True"
| "is_ValueError e = False"

text \<open>\<^verbatim>\<open>x[k]\<close> with a str key: a dict looks the key up, every other JSON value raises
  TypeError.\<close>

fun subscript :: "json \<Rightarrow> string \<Rightarrow> exn + json" where
  "subscript (JObj kvs) k = (case map_of kvs k of None \<Rightarrow> Inl (KeyError k) | Some v \<Rightarrow> Inr v)"
| "subscript j k = Inl TypeError"

text \<open>\<^verbatim>\<open>x.get(k, d)\<close>: only a dict has the method.\<close>

fun dict_get :: "json \<Rightarrow> string \<Rightarrow> json \<Rightarrow> exn + json" where
  "dict_get (JObj kvs) k d = (case map_of kvs k of None \<Rightarrow> Inr d | Some v \<Rightarrow> Inr v)"
| "dict_get j k d = Inl AttributeError"

text \<open>Truthiness, as \<^verbatim>\<open>if x\<close> tests it.\<close>

fun truthy :: "json \<Rightarrow> bool" where
  "truthy JNull = False"
| "truthy (JBool b) = b"
| "truthy (JNum r) = (r \<noteq> 0)"
| "truthy (JStr s) = (s \<noteq> [])"
| "truthy (JArr xs) = (xs \<noteq> [])"
| "truthy (JObj kvs) = (kvs \<noteq> [])"

text \<open>\<^verbatim>\<open>len(x)\<close> and \<^verbatim>\<open>for y in x\<close>: a str yields its characters, a dict its keys.\<close>

fun py_len :: "json \<Rightarrow> exn + nat" where
  "py_len (JArr xs) = Inr (length xs)"
| "py_len (JStr s) = Inr (length s)"
| "py_len (JObj kvs) = Inr (length kvs)"
| "py_len j = Inl TypeError"

fun py_iter :: "json \<Rightarrow> exn + json list" where
  "py_iter (JArr xs) = Inr xs"
| "py_iter (JStr s) = Inr (map (\<lambda>c. JStr [c]) s)"
| "py_iter (JObj kvs) = Inr (map (\<lambda>kv. JStr (fst kv)) kvs)"
| "py_iter j = Inl TypeError"

text \<open>\<^verbatim>\<open>x[:3]\<close>: a list or a str is sliced; a dict, a number, a bool and None raise (a dict
  raises TypeError up to Python 3.11 and KeyError from 3.12 on; neither is a ValueError).\<close>

fun slice3 :: "json \<Rightarrow> exn + json" where
  "slice3 (JArr xs) = Inr (JArr (take 3 xs))"
| "slice3 (JStr s) = Inr (JStr (take 3 s))"
| "slice3 j = Inl TypeError"

text \<open>The operand of an arithmetic operator: a number, or a bool (an int in Python).\<close>

fun num_of :: "json \<Rightarrow> exn + rat" where
  "num_of (JNum r) = Inr r"
| "num_of (JBool b) = Inr (if b then 1 else 0)"
| "num_of j = Inl TypeError"

text \<open>\<^verbatim>\<open>round(x, n)\<close>: to \<open>n\<close> decimals, a tie going to the even neighbour.\<close>

definition round_half_even :: "rat \<Rightarrow> int" where
  "round_half_even y =
     (let f = \<lfloor>y\<rfloor>; d = y - of_int f
      in if d < 1 / 2 then f else if 1 / 2 < d then f + 1 else if even f then f else f + 1)"

definition py_round :: "rat \<Rightarrow> nat \<Rightarrow> rat" where
  "py_round x n = of_int (round_half_even (x * 10 ^ n)) / 10 ^ n"

section \<open>Request items (models.py)\<close>

record ItemInput =
  itemId :: string
  name :: string
  currentCost :: rat
  lastUsed :: "string option"
  catalogNo :: "string option"
  category :: "string option"
  unitOfMeasure :: "string option"

section \<open>The projector (gemini\_service.py, \_process\_gemini\_response)\<close>

text \<open>The generator \<^verbatim>\<open>next((i for i in original_items if i['itemId'] == item_result['itemId']), None)\<close>:
  \<^verbatim>\<open>item_result['itemId']\<close> is evaluated once for each original item tried, so not at all
  when there is none.\<close>

fun find_original :: "ItemInput list \<Rightarrow> json \<Rightarrow> exn + ItemInput option" where
  "find_original [] item_result = Inr None"
| "find_original (i # rest) item_result =
     (case subscript item_result ''itemId'' of
        Inl e \<Rightarrow> Inl e
      | Inr v \<Rightarrow> if JStr (itemId i) = v then Inr (Some i) else find_original rest item_result)"

text \<open>The body of the inner loop, for one suggestion of the model.\<close>

definition process_suggestion :: "rat \<Rightarrow> json \<Rightarrow> exn + json" where
  "process_suggestion current_cost sugg =
     (case subscript sugg ''estimatedCost'' of
        Inl e \<Rightarrow> Inl e
      | Inr ec \<Rightarrow>
     (case num_of ec of
        Inl e \<Rightarrow> Inl e
      | Inr estimated \<Rightarrow>
     (let cost_savings = current_cost - estimated;
          savings_percent = (if current_cost > 0 then cost_savings / current_cost * 100 else 0)
      in
     (case subscript sugg ''name'' of
        Inl e \<Rightarrow> Inl e
      | Inr nm \<Rightarrow>
     (case dict_get sugg ''confidence'' (JNum (7 / 10)) of
        Inl e \<Rightarrow> Inl e
      | Inr conf \<Rightarrow>
     (case subscript sugg ''rationale'' of
        Inl e \<Rightarrow> Inl e
      | Inr rationale \<Rightarrow>
          Inr (JObj [(''suggestedItemId'', JNull),
                     (''name'', nm),
                     (''estimatedCost'', ec),
                     (''costSavings'', JNum (py_round cost_savings 2)),
                     (''savingsPercent'', JNum (py_round savings_percent 1)),
                     (''confidence'', conf),
                     (''rationale'', rationale)])))))))"

fun process_suggestions :: "rat \<Rightarrow> json list \<Rightarrow> exn + json list" where
  "process_suggestions current_cost [] = Inr []"
| "process_suggestions current_cost (sugg # rest) =
     (case process_suggestion current_cost sugg of
        Inl e \<Rightarrow> Inl e
      | Inr s \<Rightarrow>
          (case process_suggestions current_cost rest of
             Inl e \<Rightarrow> Inl e
           | Inr ss \<Rightarrow> Inr (s # ss)))"

text \<open>\<^verbatim>\<open>original.get('lastUsed')\<close> of a dumped \<^verbatim>\<open>Optional[str]\<close>.\<close>

definition opt_str :: "string option \<Rightarrow> json" where
  "opt_str v = (case v of None \<Rightarrow> JNull | Some s \<Rightarrow> JStr s)"

text \<open>The body of the outer loop: \<open>None\<close> is \<^verbatim>\<open>continue\<close>, the entry is skipped. The
  f-string \<^verbatim>\<open>f"chk_{item_result['itemId']}"\<close> only ever formats a str, because the value
  compared equal to a request identifier; the other branch is never taken
  (lemma \<open>find_original_Some\<close>).\<close>

definition process_item :: "ItemInput list \<Rightarrow> json \<Rightarrow> exn + json option" where
  "process_item original_items item_result =
     (case find_original original_items item_result of
        Inl e \<Rightarrow> Inl e
      | Inr None \<Rightarrow>
          (case dict_get item_result ''itemId'' JNull of
             Inl e \<Rightarrow> Inl e
           | Inr logged \<Rightarrow> Inr None)
      | Inr (Some original) \<Rightarrow>
     (let current_cost = currentCost original in
     (case dict_get item_result ''suggestions'' (JArr []) of
        Inl e \<Rightarrow> Inl e
      | Inr sv \<Rightarrow>
     (case slice3 sv of
        Inl e \<Rightarrow> Inl e
      | Inr top3 \<Rightarrow>
     (case py_iter top3 of
        Inl e \<Rightarrow> Inl e
      | Inr suggs \<Rightarrow>
     (case process_suggestions current_cost suggs of
        Inl e \<Rightarrow> Inl e
      | Inr suggestions \<Rightarrow>
     (case dict_get item_result ''neverUsedFlag'' (JBool False) of
        Inl e \<Rightarrow> Inl e
      | Inr never_used \<Rightarrow>
     (case dict_get item_result ''removalSuggestion'' (JObj []) of
        Inl e \<Rightarrow> Inl e
      | Inr removal \<Rightarrow>
     (case subscript item_result ''itemId'' of
        Inl e \<Rightarrow> Inl e
      | Inr iid \<Rightarrow>
     (case subscript item_result ''name'' of
        Inl e \<Rightarrow> Inl e
      | Inr nm \<Rightarrow>
     (case dict_get removal ''recommended'' never_used of
        Inl e \<Rightarrow> Inl e
      | Inr recommended \<Rightarrow>
     (case dict_get removal ''reason'' JNull of
        Inl e \<Rightarrow> Inl e
      | Inr reason \<Rightarrow>
     (case dict_get removal ''recommended'' JNull of
        Inl e \<Rightarrow> Inl e
      | Inr explicit \<Rightarrow>
     (case iid of
        JStr s \<Rightarrow>
          Inr (Some (JObj
            [(''itemId'', iid),
             (''name'', nm),
             (''currentCost'', JNum current_cost),
             (''lastUsed'', opt_str (lastUsed original)),
             (''neverUsedFlag'', never_used),
             (''suggestions'', JArr suggestions),
             (''removalSuggestion'', JObj
                [(''recommended'', recommended),
                 (''reason'', reason),
                 (''actionableCheckboxId'',
                    if truthy explicit then JStr (''chk_'' @ s) else JNull)])]))
      | other \<Rightarrow> Inl TypeError))))))))))))))"

fun process_items :: "ItemInput list \<Rightarrow> json list \<Rightarrow> exn + json list" where
  "process_items original_items [] = Inr []"
| "process_items original_items (item_result # rest) =
     (case process_item original_items item_result of
        Inl e \<Rightarrow> Inl e
      | Inr None \<Rightarrow> process_items original_items rest
      | Inr (Some p) \<Rightarrow>
          (case process_items original_items rest of
             Inl e \<Rightarrow> Inl e
           | Inr ps \<Rightarrow> Inr (p # ps)))"

definition process_gemini_response :: "json \<Rightarrow> ItemInput list \<Rightarrow> exn + json" where
  "process_gemini_response gemini_result original_items =
     (case dict_get gemini_result ''items'' (JArr []) of
        Inl e \<Rightarrow> Inl e
      | Inr items_from_gemini \<Rightarrow>
     (case py_len items_from_gemini of
        Inl e \<Rightarrow> Inl e
      | Inr n \<Rightarrow>
     (case py_iter items_from_gemini of
        Inl e \<Rightarrow> Inl e
      | Inr entries \<Rightarrow>
     (case process_items original_items entries of
        Inl e \<Rightarrow> Inl e
      | Inr processed_items \<Rightarrow> Inr (JObj [(''items'', JArr processed_items)])))))"

section \<open>The extractor (gemini\_service.py, \_extract\_json)\<close>

text \<open>Text is modelled as ASCII. \<^verbatim>\<open>str.isspace\<close>, which both \<^verbatim>\<open>str.strip\<close> and the
  regular expression class \<^verbatim>\<open>\s\<close> use: tab to carriage return, the four separators
  \<^verbatim>\<open>\x1c\<close> to \<^verbatim>\<open>\x1f\<close>, and the space.\<close>

definition isspace :: "char \<Rightarrow> bool" where
  "isspace c = (let n = of_char c :: nat in (9 \<le> n \<and> n \<le> 13) \<or> (28 \<le> n \<and> n \<le> 32))"

definition strip :: "string \<Rightarrow> string" where
  "strip s = rev (dropWhile isspace (rev (dropWhile isspace s)))"

text \<open>\<^verbatim>\<open>str.find\<close> and \<^verbatim>\<open>str.rfind\<close> of one character: the first and the last index, or
  \<open>-1\<close>; and the slice \<^verbatim>\<open>text[a:b]\<close> for indices that are not negative.\<close>

fun py_find :: "string \<Rightarrow> char \<Rightarrow> int" where
  "py_find [] c = - 1"
| "py_find (x # xs) c =
     (if x = c then 0 else (let r = py_find xs c in if r = - 1 then - 1 else r + 1))"

fun py_rfind :: "string \<Rightarrow> char \<Rightarrow> int" where
  "py_rfind [] c = - 1"
| "py_rfind (x # xs) c =
     (let r = py_rfind xs c in if r \<noteq> - 1 then r + 1 else if x = c then 0 else - 1)"

definition py_slice :: "string \<Rightarrow> int \<Rightarrow> int \<Rightarrow> string" where
  "py_slice s a b = drop (nat a) (take (nat b) s)"

text \<open>The fragment of regular expressions that the pattern uses, matched the way
  \<^verbatim>\<open>re\<close> does, by backtracking: a greedy operator tries the longer match first, a lazy
  one the shorter. The state is the pair of the text left at the opening and at the
  closing of group 1.\<close>

datatype cls = Space | AnyChar

datatype node =
    Lit char
  | OptLit string
  | Star bool cls
  | GroupOpen
  | GroupClose

fun in_cls :: "cls \<Rightarrow> char \<Rightarrow> bool" where
  "in_cls Space c = isspace c"
| "in_cls AnyChar c = True"

fun rmatch :: "node list \<Rightarrow> string \<Rightarrow> string \<times> string \<Rightarrow> (string \<times> string) option" where
  "rmatch [] s g = Some g"
| "rmatch (Lit c # ns) s g =
     (case s of [] \<Rightarrow> None | x # xs \<Rightarrow> if x = c then rmatch ns xs g else None)"
| "rmatch (OptLit l # ns) s g =
     (case (if take (length l) s = l then rmatch ns (drop (length l) s) g else None) of
        Some r \<Rightarrow> Some r
      | None \<Rightarrow> rmatch ns s g)"
| "rmatch (Star True c # ns) s g =
     (case s of
        [] \<Rightarrow> rmatch ns s g
      | x # xs \<Rightarrow>
          if in_cls c x
          then (case rmatch (Star True c # ns) xs g of
                  Some r \<Rightarrow> Some r
                | None \<Rightarrow> rmatch ns s g)
          else rmatch ns s g)"
| "rmatch (Star False c # ns) s g =
     (case rmatch ns s g of
        Some r \<Rightarrow> Some r
      | None \<Rightarrow>
          (case s of
             [] \<Rightarrow> None
           | x # xs \<Rightarrow> if in_cls c x then rmatch (Star False c # ns) xs g else None))"
| "rmatch (GroupOpen # ns) s g = rmatch ns s (s, snd g)"
| "rmatch (GroupClose # ns) s g = rmatch ns s (fst g, s)"

text \<open>\<^verbatim>\<open>re.search\<close>: the match at the leftmost position that has one.\<close>

fun re_search :: "node list \<Rightarrow> string \<Rightarrow> (string \<times> string) option" where
  "re_search ns s =
     (case rmatch ns s (s, s) of
        Some g \<Rightarrow> Some g
      | None \<Rightarrow> (case s of [] \<Rightarrow> None | x # xs \<Rightarrow> re_search ns xs))"

definition group1 :: "string \<times> string \<Rightarrow> string" where
  "group1 g = take (length (fst g) - length (snd g)) (fst g)"

definition fence_pattern :: "node list" where
  "fence_pattern =
     [Lit CHR ''`'', Lit CHR ''`'', Lit CHR ''`'', OptLit ''json'', Star True Space,
      GroupOpen, Lit CHR ''{'', Star False AnyChar, Lit CHR ''}'', GroupClose,
      Star True Space, Lit CHR ''`'', Lit CHR ''`'', Lit CHR ''`'']"

definition extract_json :: "(string \<Rightarrow> json option) \<Rightarrow> string \<Rightarrow> exn + json" where
  "extract_json loads raw =
     (let text = strip raw in
      case loads text of
        Some j \<Rightarrow> Inr j
      | None \<Rightarrow>
     (case (case re_search fence_pattern text of
              None \<Rightarrow> None
            | Some json_match \<Rightarrow> loads (group1 json_match)) of
        Some j \<Rightarrow> Inr j
      | None \<Rightarrow>
     (let first_brace = py_find text CHR ''{'';
          last_brace = py_rfind text CHR ''}''
      in
      case (if first_brace \<noteq> - 1 \<and> last_brace \<noteq> - 1 \<and> last_brace > first_brace
            then loads (py_slice text first_brace (last_brace + 1))
            else None) of
        Some j \<Rightarrow> Inr j
      | None \<Rightarrow> Inl (ValueError ''Could not extract valid JSON from Gemini response''))))"










section \<open>Example inputs\<close>

text \<open>The request item of the end-to-end example, a model entry for it with four
  suggestions, and a model reply that also names an identifier the request does not have.\<close>

definition gauze :: ItemInput where
  "gauze = \<lparr>itemId = ''A1'', name = ''Gauze'', currentCost = 10, lastUsed = Some ''never'',
            catalogNo = None, category = None, unitOfMeasure = None\<rparr>"

definition sugg :: "string \<Rightarrow> rat \<Rightarrow> json" where
  "sugg n c = JObj [(''name'', JStr n), (''estimatedCost'', JNum c), (''rationale'', JStr ''cheaper equivalent'')]"

definition entry4 :: json where
  "entry4 = JObj [(''itemId'', JStr ''A1''), (''name'', JStr ''Gauze''),
     (''suggestions'', JArr [sugg ''G1'' 6, sugg ''G2'' 7, sugg ''G3'' 15, sugg ''G4'' 1])]"

definition reply2 :: json where
  "reply2 = JObj [(''items'', JArr [JObj [(''itemId'', JStr ''Z9'')], entry4])]"

definition never_used_entry :: json where
  "never_used_entry =
     JObj [(''itemId'', JStr ''A1''), (''name'', JStr ''Gauze''), (''neverUsedFlag'', JBool True)]"

definition renamed_entry :: json where
  "renamed_entry = JObj [(''itemId'', JStr ''A1''), (''name'', JStr ''Scalpel'')]"

definition overpriced_entry :: json where
  "overpriced_entry = JObj [(''itemId'', JStr ''A1''), (''name'', JStr ''Gauze''),
     (''suggestions'', JArr [sugg ''Premium Gauze'' 15])]"





section \<open>Response models (models.py)\<close>

text \<open>The fields that share a name with a field of \<open>ItemInput\<close> or of the request carry
  the initials of their class. \<open>pageSize\<close> is the one entry of \<^verbatim>\<open>pagination\<close> that
  varies; the metadata of the response (time stamp, model name, elapsed time) is left out.\<close>

record AlternativeSuggestion =
  suggestedItemId :: "string option"
  as_name :: string
  estimatedCost :: rat
  costSavings :: rat
  savingsPercent :: rat
  confidence :: rat
  rationale :: string

record RemovalSuggestion =
  recommended :: bool
  reason :: "string option"
  actionableCheckboxId :: "string option"

record ItemAnalysis =
  ia_itemId :: string
  ia_name :: string
  ia_currentCost :: rat
  ia_lastUsed :: "string option"
  neverUsedFlag :: bool
  suggestions :: "AlternativeSuggestion list"
  removalSuggestion :: RemovalSuggestion

record UIHints =
  displayMode :: string
  priorityItems :: "string list"
  pageSize :: nat

record SuggestionRequest =
  spcId :: string
  subGrid :: string
  items :: "ItemInput list"
  procedureType :: "string option"
  facilityId :: "string option"

record SuggestionResponse =
  sr_spcId :: string
  sr_subGrid :: string
  itemsAnalyzed :: "ItemAnalysis list"
  summary :: string
  uiHints :: UIHints

section \<open>The summary (prompts.py, build\_summary\_prompt)\<close>

text \<open>\<^verbatim>\<open>str(n)\<close> of a natural number, and \<^verbatim>\<open>f"{x:.2f}"\<close>: the sign, the integer part
  and two decimals of the value rounded to hundredths.\<close>

definition digit :: "nat \<Rightarrow> char" where
  "digit n = ''0123456789'' ! n"

fun str_nat :: "nat \<Rightarrow> string" where
  "str_nat n = (if n < 10 then [digit n] else str_nat (n div 10) @ [digit (n mod 10)])"

definition format_2f :: "rat \<Rightarrow> string" where
  "format_2f x =
     (let n = nat (round_half_even (\<bar>x\<bar> * 100))
      in (if x < 0 then ''-'' else []) @ str_nat (n div 100) @ ''.''
           @ [digit (n mod 100 div 10), digit (n mod 10)])"

text \<open>\<^verbatim>\<open>max\<close> of a list that starts with \<open>x\<close>.\<close>

definition py_max :: "rat \<Rightarrow> rat list \<Rightarrow> rat" where
  "py_max x rest = foldl max x rest"

definition build_summary_prompt :: "ItemAnalysis list \<Rightarrow> string" where
  "build_summary_prompt analysis_results =
     (let total_items = length analysis_results;
          items_with_suggestions =
            sum_list (map (\<lambda>item. 1 :: nat) (filter (\<lambda>item. suggestions item \<noteq> []) analysis_results));
          removal_candidates =
            sum_list (map (\<lambda>item. 1 :: nat) (filter neverUsedFlag analysis_results));
          total_potential_savings =
            sum_list (map (\<lambda>item. case map costSavings (suggestions item) of
                                     [] \<Rightarrow> 0
                                   | s # rest \<Rightarrow> py_max s rest)
                          (filter (\<lambda>item. suggestions item \<noteq> []) analysis_results))
      in ''Analyzed '' @ str_nat total_items
           @ '' items. Found cost-saving alternatives for '' @ str_nat items_with_suggestions
           @ '' items with potential savings of $'' @ format_2f total_potential_savings
           @ ''. Identified '' @ str_nat removal_candidates
           @ '' never-used items recommended for removal.'')"

section \<open>The endpoint (main.py, generate\_suggestions)\<close>

text \<open>What lies outside the repository is a parameter: the provider call (given what the
  prompt is built from; building the prompt raises nothing), \<^verbatim>\<open>json.loads\<close>, the
  validation \<^verbatim>\<open>ItemAnalysis(**item_data)\<close> of pydantic (\<open>None\<close> is its
  \<^verbatim>\<open>ValidationError\<close>) and \<^verbatim>\<open>str(e)\<close> of an exception.\<close>

record GeminiCandidate =
  content_parts :: "string list option"

record env =
  call_gemini :: "ItemInput list \<Rightarrow> string \<Rightarrow> string option \<Rightarrow> exn + GeminiCandidate list"
  json_loads :: "string \<Rightarrow> json option"
  validate_item :: "json \<Rightarrow> ItemAnalysis option"
  str_exn :: "exn \<Rightarrow> string"

text \<open>\<^verbatim>\<open>GeminiService.generate_suggestions\<close>, after the provider has answered. The handler
  for \<^verbatim>\<open>JSONDecodeError\<close> reads \<^verbatim>\<open>raw_text\<close>; the only call that can raise that error
  comes before the assignment, so the handler itself fails.\<close>

definition service_generate_suggestions ::
    "env \<Rightarrow> ItemInput list \<Rightarrow> string \<Rightarrow> string option \<Rightarrow> exn + json" where
  "service_generate_suggestions ev its sub_grid procedure_type =
     (case call_gemini ev its sub_grid procedure_type of
        Inl e \<Rightarrow> if e = JSONDecodeError then Inl UnboundLocalError else Inl e
      | Inr candidates \<Rightarrow>
     (case candidates of
        [] \<Rightarrow> Inl (ValueError
                ''Gemini returned empty response - request may have been blocked by safety filters'')
      | candidate # others \<Rightarrow>
     (case content_parts candidate of
        None \<Rightarrow> Inl (ValueError ''Gemini returned no content - request blocked by safety filters'')
      | Some [] \<Rightarrow> Inl (ValueError ''Gemini returned no content - request blocked by safety filters'')
      | Some (raw_text # parts) \<Rightarrow>
     (case extract_json (json_loads ev) raw_text of
        Inl e \<Rightarrow> Inl e
      | Inr result \<Rightarrow> process_gemini_response result its))))"

fun validate_all :: "(json \<Rightarrow> ItemAnalysis option) \<Rightarrow> json list \<Rightarrow> exn + ItemAnalysis list" where
  "validate_all v [] = Inr []"
| "validate_all v (item_data # rest) =
     (case v item_data of
        None \<Rightarrow> Inl ValidationError
      | Some item \<Rightarrow>
          (case validate_all v rest of
             Inl e \<Rightarrow> Inl e
           | Inr its \<Rightarrow> Inr (item # its)))"

text \<open>The loop over the analysed items; \<open>acc\<close> is the list \<^verbatim>\<open>priority_items\<close>.\<close>

definition priority_step :: "string list \<Rightarrow> ItemAnalysis \<Rightarrow> string list" where
  "priority_step acc item =
     (let acc1 =
        (case map costSavings (suggestions item) of
           [] \<Rightarrow> acc
         | s # rest \<Rightarrow>
             (let max_savings = py_max s rest
              in if max_savings > 50 then acc @ [ia_itemId item] else acc))
      in if recommended (removalSuggestion item) then acc1 @ [ia_itemId item] else acc1)"

definition priority_items :: "ItemAnalysis list \<Rightarrow> string list" where
  "priority_items items_analyzed = foldl priority_step [] items_analyzed"

text \<open>The body of the \<^verbatim>\<open>try\<close>, with the number of provider calls made.\<close>

definition try_body :: "env \<Rightarrow> SuggestionRequest \<Rightarrow> (exn + SuggestionResponse) \<times> nat" where
  "try_body ev request =
     (if items request = [] then (Inl (HTTPException 400 ''No items provided for analysis''), 0)
      else if length (items request) > 50
      then (Inl (HTTPException 400 ''Maximum 50 items per request''), 0)
      else
        (case service_generate_suggestions ev (items request) (subGrid request)
                (procedureType request) of
           Inl e \<Rightarrow> (Inl e, 1)
         | Inr gemini_result \<Rightarrow>
        (case subscript gemini_result ''items'' of
           Inl e \<Rightarrow> (Inl e, 1)
         | Inr iv \<Rightarrow>
        (case py_iter iv of
           Inl e \<Rightarrow> (Inl e, 1)
         | Inr item_datas \<Rightarrow>
        (case validate_all (validate_item ev) item_datas of
           Inl e \<Rightarrow> (Inl e, 1)
         | Inr items_analyzed \<Rightarrow>
             (Inr \<lparr>sr_spcId = spcId request,
                   sr_subGrid = subGrid request,
                   itemsAnalyzed = items_analyzed,
                   summary = build_summary_prompt items_analyzed,
                   uiHints = \<lparr>displayMode = ''panel'',
                              priorityItems = take 5 (priority_items items_analyzed),
                              pageSize = length items_analyzed\<rparr>\<rparr>, 1))))))"

text \<open>The two handlers: \<^verbatim>\<open>except ValueError\<close>, then \<^verbatim>\<open>except Exception\<close>, which every
  other exception reaches, an \<^verbatim>\<open>HTTPException\<close> raised in the body too.\<close>

definition generate_suggestions :: "env \<Rightarrow> SuggestionRequest \<Rightarrow> (exn + SuggestionResponse) \<times> nat" where
  "generate_suggestions ev request =
     (case try_body ev request of
        (Inr response, calls) \<Rightarrow> (Inr response, calls)
      | (Inl e, calls) \<Rightarrow>
          if is_ValueError e then (Inl (HTTPException 422 (str_exn ev e)), calls)
          else (Inl (HTTPException 500 (''Internal server error: '' @ str_exn ev e)), calls))"

text \<open>The status of the HTTP response: \<^verbatim>\<open>http_exception_handler\<close> answers with the status
  of the exception, \<^verbatim>\<open>general_exception_handler\<close> with 500.\<close>

fun status_code :: "exn + SuggestionResponse \<Rightarrow> nat" where
  "status_code (Inr response) = 200"
| "status_code (Inl (HTTPException code detail)) = code"
| "status_code (Inl e) = 500"

section \<open>Example requests and analyses\<close>

definition request_of :: "ItemInput list \<Rightarrow> SuggestionRequest" where
  "request_of its = \<lparr>spcId = ''SPC-1'', subGrid = ''Supplies'', items = its,
                      procedureType = None, facilityId = None\<rparr>"

text \<open>An analysed item with a suggestion that saves 60 and a recommended removal.\<close>

definition pricey_analysis :: ItemAnalysis where
  "pricey_analysis =
     \<lparr>ia_itemId = ''B2'', ia_name = ''Stapler'', ia_currentCost = 100, ia_lastUsed = None,
      neverUsedFlag = True,
      suggestions = [\<lparr>suggestedItemId = None, as_name = ''Generic Stapler'', estimatedCost = 40,
                      costSavings = 60, savingsPercent = 60, confidence = 7 / 10,
                      rationale = ''cheaper equivalent''\<rparr>],
      removalSuggestion = \<lparr>recommended = True, reason = Some ''never used'',
                           actionableCheckboxId = Some ''chk_B2''\<rparr>\<rparr>"

text \<open>The priority rule in the words of the specification: one occurrence of the identifier
  for each reason that holds.\<close>

definition priority_reasons :: "ItemAnalysis \<Rightarrow> string list" where
  "priority_reasons item =
     (if suggestions item \<noteq> [] \<and> Max (set (map costSavings (suggestions item))) > 50
      then [ia_itemId item] else [])
     @ (if recommended (removalSuggestion item) then [ia_itemId item] else [])"

text \<open>An environment whose provider answers with one text that parses to \<open>parsed\<close>.\<close>

definition reply_env :: "json \<Rightarrow> (json \<Rightarrow> ItemAnalysis option) \<Rightarrow> env" where
  "reply_env parsed v =
     \<lparr>call_gemini = (\<lambda>its sub_grid procedure_type. Inr [\<lparr>content_parts = Some [''reply'']\<rparr>]),
      json_loads = (\<lambda>s. if s = ''reply'' then Some parsed else None),
      validate_item = v,
      str_exn = (\<lambda>e. ''error'')\<rparr>"

definition stapler :: ItemInput where
  "stapler = \<lparr>itemId = ''B2'', name = ''Stapler'', currentCost = 100, lastUsed = None,
              catalogNo = None, category = None, unitOfMeasure = None\<rparr>"

definition pricey_reply :: json where
  "pricey_reply = JObj [(''items'', JArr [JObj
     [(''itemId'', JStr ''B2''), (''name'', JStr ''Stapler''), (''neverUsedFlag'', JBool True),
      (''suggestions'', JArr [sugg ''Generic Stapler'' 40]),
      (''removalSuggestion'',
         JObj [(''recommended'', JBool True), (''reason'', JStr ''never used'')])]])]"

definition validate_pricey :: "json \<Rightarrow> ItemAnalysis option" where
  "validate_pricey j =
     (if subscript j ''itemId'' = Inr (JStr ''B2'') then Some pricey_analysis else None)"

text \<open>A reply whose only suggestion has no rationale.\<close>

definition no_rationale_entry :: json where
  "no_rationale_entry = JObj
     [(''itemId'', JStr ''A1''), (''name'', JStr ''Gauze''),
      (''suggestions'', JArr [JObj [(''name'', JStr ''Generic Gauze''), (''estimatedCost'', JNum 6)]])]"

definition no_rationale_reply :: json where
  "no_rationale_reply = JObj [(''items'', JArr [no_rationale_entry])]"

section \<open>Properties of the projector\<close>

lemma find_original_Some:
  "find_original os r = Inr (Some orig) \<Longrightarrow>
     orig \<in> set os \<and> subscript r ''itemId'' = Inr (JStr (itemId orig))"
  by (induction os) (auto split: sum.splits if_splits)

lemma find_original_None:
  "find_original os r = Inr None \<Longrightarrow>
     subscript r ''itemId'' \<notin> (\<lambda>orig. Inr (JStr (itemId orig))) ` set os"
  by (induction os) (auto split: sum.splits if_splits)

lemma process_item_Some:
  assumes "process_item os r = Inr (Some p)"
  shows "\<exists>orig. find_original os r = Inr (Some orig)
           \<and> subscript p ''itemId'' = Inr (JStr (itemId orig))
           \<and> subscript p ''name'' = subscript r ''name''
           \<and> subscript p ''currentCost'' = Inr (JNum (currentCost orig))
           \<and> subscript p ''lastUsed'' = Inr (opt_str (lastUsed orig))"
  using assms unfolding process_item_def Let_def
  by (auto split: sum.splits option.splits json.splits dest: find_original_Some)

lemma process_item_None:
  assumes "process_item os r = Inr None"
  shows "subscript r ''itemId'' \<notin> (\<lambda>orig. Inr (JStr (itemId orig))) ` set os"
  using assms unfolding process_item_def Let_def
  by (auto split: sum.splits option.splits json.splits dest: find_original_None)

lemma process_items_ids:
  "process_items os entries = Inr ps \<Longrightarrow>
     map (\<lambda>p. subscript p ''itemId'') ps =
       filter (\<lambda>x. x \<in> (\<lambda>orig. Inr (JStr (itemId orig))) ` set os)
              (map (\<lambda>r. subscript r ''itemId'') entries)"
proof (induction entries arbitrary: ps)
  case Nil
  then show ?case by simp
next
  case (Cons r rest)
  show ?case
  proof (cases "process_item os r")
    case (Inl e)
    with Cons.prems show ?thesis by simp
  next
    case (Inr res)
    show ?thesis
    proof (cases res)
      case None
      with Inr Cons.prems have rest: "process_items os rest = Inr ps" by simp
      from None Inr have "subscript r ''itemId'' \<notin> (\<lambda>orig. Inr (JStr (itemId orig))) ` set os"
        using process_item_None by blast
      with Cons.IH [OF rest] show ?thesis by simp
    next
      case (Some p)
      with Inr Cons.prems obtain ps' where rest: "process_items os rest = Inr ps'" and ps: "ps = p # ps'"
        by (auto split: sum.splits)
      from Some Inr obtain orig where "find_original os r = Inr (Some orig)"
        and pid: "subscript p ''itemId'' = Inr (JStr (itemId orig))"
        using process_item_Some by blast
      then have "orig \<in> set os" and rid: "subscript r ''itemId'' = Inr (JStr (itemId orig))"
        using find_original_Some by blast+
      then have "subscript r ''itemId'' \<in> (\<lambda>orig. Inr (JStr (itemId orig))) ` set os"
        by force
      with Cons.IH [OF rest] ps pid rid show ?thesis by simp
    qed
  qed
qed

lemmas eval_defs = process_gemini_response_def process_item_def process_suggestion_def opt_str_def
  py_round_def round_half_even_def Let_def

text \<open>
  Claim C2. Whenever the projector returns, every record of its result carries an
  \<^verbatim>\<open>itemId\<close> of the request, and the identifiers of the result are exactly those of the
  model's entries that occur in the request, in the model's order: an entry with any other
  identifier is skipped, none is made up.
\<close>

theorem projector_keeps_request_ids:
  assumes "process_gemini_response gemini_result original_items = Inr out"
  shows "\<exists>iv entries ps.
           dict_get gemini_result ''items'' (JArr []) = Inr iv
         \<and> py_iter iv = Inr entries
         \<and> out = JObj [(''items'', JArr ps)]
         \<and> (\<forall>p\<in>set ps. \<exists>orig\<in>set original_items.
                subscript p ''itemId'' = Inr (JStr (itemId orig)))
         \<and> map (\<lambda>p. subscript p ''itemId'') ps =
             filter (\<lambda>x. x \<in> (\<lambda>orig. Inr (JStr (itemId orig))) ` set original_items)
                    (map (\<lambda>r. subscript r ''itemId'') entries)"
proof -
  from assms obtain iv entries ps where
      iv: "dict_get gemini_result ''items'' (JArr []) = Inr iv"
    and en: "py_iter iv = Inr entries"
    and ps: "process_items original_items entries = Inr ps"
    and out: "out = JObj [(''items'', JArr ps)]"
    unfolding process_gemini_response_def by (auto split: sum.splits)
  let ?ids = "(\<lambda>orig. Inr (JStr (itemId orig))) ` set original_items"
  have m: "map (\<lambda>p. subscript p ''itemId'') ps =
             filter (\<lambda>x. x \<in> ?ids) (map (\<lambda>r. subscript r ''itemId'') entries)"
    using ps by (rule process_items_ids)
  have "\<forall>p\<in>set ps. \<exists>orig\<in>set original_items. subscript p ''itemId'' = Inr (JStr (itemId orig))"
  proof
    fix p assume "p \<in> set ps"
    then have "subscript p ''itemId'' \<in> set (map (\<lambda>p. subscript p ''itemId'') ps)" by simp
    with m have "subscript p ''itemId'' \<in> ?ids" by simp
    then show "\<exists>orig\<in>set original_items. subscript p ''itemId'' = Inr (JStr (itemId orig))" by blast
  qed
  with iv en out m show ?thesis by blast
qed

theorem projector_keeps_request_ids_witness:
  "\<exists>out ps. process_gemini_response reply2 [gauze] = Inr out
     \<and> out = JObj [(''items'', JArr ps)]
     \<and> map (\<lambda>p. subscript p ''itemId'') ps = [Inr (JStr ''A1'')]"
proof -
  have "\<exists>out. process_gemini_response reply2 [gauze] = Inr out"
    by (simp add: eval_defs gauze_def sugg_def entry4_def reply2_def)
  then obtain out where h: "process_gemini_response reply2 [gauze] = Inr out" ..
  from projector_keeps_request_ids [OF h] obtain iv entries ps where
      iv: "dict_get reply2 ''items'' (JArr []) = Inr iv"
    and en: "py_iter iv = Inr entries"
    and out: "out = JObj [(''items'', JArr ps)]"
    and m: "map (\<lambda>p. subscript p ''itemId'') ps =
             filter (\<lambda>x. x \<in> (\<lambda>orig. Inr (JStr (itemId orig))) ` set [gauze])
                    (map (\<lambda>r. subscript r ''itemId'') entries)"
    by (elim exE conjE) (rule that)
  from iv have "iv = JArr [JObj [(''itemId'', JStr ''Z9'')], entry4]"
    by (simp add: reply2_def)
  with en have "entries = [JObj [(''itemId'', JStr ''Z9'')], entry4]" by simp
  with m have "map (\<lambda>p. subscript p ''itemId'') ps = [Inr (JStr ''A1'')]"
    by (simp add: gauze_def sugg_def entry4_def)
  with h out show ?thesis by (intro exI conjI)
qed




lemma process_items_origin:
  "process_items os entries = Inr ps \<Longrightarrow> p \<in> set ps \<Longrightarrow>
     \<exists>r\<in>set entries. process_item os r = Inr (Some p)"
proof (induction entries arbitrary: ps)
  case Nil
  then show ?case by simp
next
  case (Cons r rest)
  then show ?case
    by (fastforce split: sum.splits option.splits)
qed



text \<open>
  Claim C4. The code at the input that breaks the claim: the model's entry flags the item
  as never used and carries no \<^verbatim>\<open>removalSuggestion.recommended\<close>. The fallback makes
  \<open>recommended\<close> true, and \<open>actionableCheckboxId\<close> stays null, because it is computed from
  \<^verbatim>\<open>removal.get('recommended')\<close> without the fallback.
\<close>

theorem checkbox_missing_after_fallback:
  "process_gemini_response (JObj [(''items'', JArr [never_used_entry])]) [gauze] =
     Inr (JObj [(''items'', JArr [JObj
       [(''itemId'', JStr ''A1''), (''name'', JStr ''Gauze''),
        (''currentCost'', JNum 10), (''lastUsed'', JStr ''never''),
        (''neverUsedFlag'', JBool True), (''suggestions'', JArr []),
        (''removalSuggestion'', JObj
           [(''recommended'', JBool True), (''reason'', JNull),
            (''actionableCheckboxId'', JNull)])]])])"
  by (simp add: eval_defs gauze_def never_used_entry_def)

text \<open>
  Claim C5, as stated, fails: the request names the item \<open>Gauze\<close>, the model's entry names
  it \<open>Scalpel\<close>, and the result carries the model's name.
\<close>

theorem name_from_model_counterexample:
  "process_gemini_response (JObj [(''items'', JArr [renamed_entry])]) [gauze] =
     Inr (JObj [(''items'', JArr [JObj
       [(''itemId'', JStr ''A1''), (''name'', JStr ''Scalpel''),
        (''currentCost'', JNum 10), (''lastUsed'', JStr ''never''),
        (''neverUsedFlag'', JBool False), (''suggestions'', JArr []),
        (''removalSuggestion'', JObj
           [(''recommended'', JBool False), (''reason'', JNull),
            (''actionableCheckboxId'', JNull)])]])])
   \<and> name gauze = ''Gauze'' \<and> ''Gauze'' \<noteq> ''Scalpel''"
  by (simp add: eval_defs gauze_def renamed_entry_def)

text \<open>
  Claim C5, amended. Every record of the projector's result comes from a model entry
  \<open>r\<close> and the first request item \<open>orig\<close> with the same identifier; \<open>currentCost\<close> and
  \<open>lastUsed\<close> are those of \<open>orig\<close>, while \<open>name\<close> is the one the model gave in \<open>r\<close>.
\<close>

theorem echoed_fields:
  assumes "process_gemini_response gemini_result original_items = Inr out"
  shows "\<exists>iv entries ps.
           dict_get gemini_result ''items'' (JArr []) = Inr iv
         \<and> py_iter iv = Inr entries
         \<and> out = JObj [(''items'', JArr ps)]
         \<and> (\<forall>p\<in>set ps. \<exists>r\<in>set entries. \<exists>orig\<in>set original_items.
                find_original original_items r = Inr (Some orig)
              \<and> subscript r ''itemId'' = Inr (JStr (itemId orig))
              \<and> subscript p ''itemId'' = Inr (JStr (itemId orig))
              \<and> subscript p ''currentCost'' = Inr (JNum (currentCost orig))
              \<and> subscript p ''lastUsed'' = Inr (opt_str (lastUsed orig))
              \<and> subscript p ''name'' = subscript r ''name'')"
proof -
  from assms obtain iv entries ps where
      iv: "dict_get gemini_result ''items'' (JArr []) = Inr iv"
    and en: "py_iter iv = Inr entries"
    and ps: "process_items original_items entries = Inr ps"
    and out: "out = JObj [(''items'', JArr ps)]"
    unfolding process_gemini_response_def by (auto split: sum.splits)
  have each: "\<exists>r\<in>set entries. \<exists>orig\<in>set original_items.
                find_original original_items r = Inr (Some orig)
              \<and> subscript r ''itemId'' = Inr (JStr (itemId orig))
              \<and> subscript p ''itemId'' = Inr (JStr (itemId orig))
              \<and> subscript p ''currentCost'' = Inr (JNum (currentCost orig))
              \<and> subscript p ''lastUsed'' = Inr (opt_str (lastUsed orig))
              \<and> subscript p ''name'' = subscript r ''name''"
    if "p \<in> set ps" for p
  proof -
    from process_items_origin [OF ps that] obtain r where
        r: "r \<in> set entries" and pr: "process_item original_items r = Inr (Some p)"
      by (elim bexE)
    from process_item_Some [OF pr] obtain orig where
        fo: "find_original original_items r = Inr (Some orig)"
      and f1: "subscript p ''itemId'' = Inr (JStr (itemId orig))"
      and f2: "subscript p ''name'' = subscript r ''name''"
      and f3: "subscript p ''currentCost'' = Inr (JNum (currentCost orig))"
      and f4: "subscript p ''lastUsed'' = Inr (opt_str (lastUsed orig))"
      by (elim exE conjE)
    from find_original_Some [OF fo] have
        o: "orig \<in> set original_items" and rid: "subscript r ''itemId'' = Inr (JStr (itemId orig))"
      by simp_all
    from fo rid f1 f3 f4 f2 show ?thesis
      by (intro bexI [OF _ r] bexI [OF _ o] conjI)
  qed
  show ?thesis
  proof (intro exI conjI)
    show "dict_get gemini_result ''items'' (JArr []) = Inr iv" by (rule iv)
    show "py_iter iv = Inr entries" by (rule en)
    show "out = JObj [(''items'', JArr ps)]" by (rule out)
  qed (use each in simp)
qed

text \<open>
  Claim C10. A suggestion with its required fields and a numeric estimated cost is
  projected whatever the sign of \<open>currentCost - estimatedCost\<close>: no comparison of the two
  costs is made. With a current cost of 10 and an estimated cost of 15 the suggestion is
  kept, with \<open>costSavings = -5\<close> and \<open>savingsPercent = -50\<close>.
\<close>

theorem negative_savings_retained:
  "process_suggestion cc (JObj [(''name'', n), (''estimatedCost'', JNum ec), (''rationale'', r)]) =
     Inr (JObj [(''suggestedItemId'', JNull), (''name'', n), (''estimatedCost'', JNum ec),
                (''costSavings'', JNum (py_round (cc - ec) 2)),
                (''savingsPercent'',
                   JNum (py_round (if cc > 0 then (cc - ec) / cc * 100 else 0) 1)),
                (''confidence'', JNum (7 / 10)), (''rationale'', r)])
   \<and> process_gemini_response (JObj [(''items'', JArr [overpriced_entry])]) [gauze] =
     Inr (JObj [(''items'', JArr [JObj
       [(''itemId'', JStr ''A1''), (''name'', JStr ''Gauze''),
        (''currentCost'', JNum 10), (''lastUsed'', JStr ''never''),
        (''neverUsedFlag'', JBool False),
        (''suggestions'', JArr [JObj
           [(''suggestedItemId'', JNull), (''name'', JStr ''Premium Gauze''),
            (''estimatedCost'', JNum 15), (''costSavings'', JNum (- 5)),
            (''savingsPercent'', JNum (- 50)), (''confidence'', JNum (7 / 10)),
            (''rationale'', JStr ''cheaper equivalent'')]]),
        (''removalSuggestion'', JObj
           [(''recommended'', JBool False), (''reason'', JNull),
            (''actionableCheckboxId'', JNull)])]])])"
proof
  show "process_suggestion cc (JObj [(''name'', n), (''estimatedCost'', JNum ec), (''rationale'', r)]) =
     Inr (JObj [(''suggestedItemId'', JNull), (''name'', n), (''estimatedCost'', JNum ec),
                (''costSavings'', JNum (py_round (cc - ec) 2)),
                (''savingsPercent'',
                   JNum (py_round (if cc > 0 then (cc - ec) / cc * 100 else 0) 1)),
                (''confidence'', JNum (7 / 10)), (''rationale'', r)])"
    by (simp add: process_suggestion_def)
next
  show "process_gemini_response (JObj [(''items'', JArr [overpriced_entry])]) [gauze] =
     Inr (JObj [(''items'', JArr [JObj
       [(''itemId'', JStr ''A1''), (''name'', JStr ''Gauze''),
        (''currentCost'', JNum 10), (''lastUsed'', JStr ''never''),
        (''neverUsedFlag'', JBool False),
        (''suggestions'', JArr [JObj
           [(''suggestedItemId'', JNull), (''name'', JStr ''Premium Gauze''),
            (''estimatedCost'', JNum 15), (''costSavings'', JNum (- 5)),
            (''savingsPercent'', JNum (- 50)), (''confidence'', JNum (7 / 10)),
            (''rationale'', JStr ''cheaper equivalent'')]]),
        (''removalSuggestion'', JObj
           [(''recommended'', JBool False), (''reason'', JNull),
            (''actionableCheckboxId'', JNull)])]])])"
    by (simp add: eval_defs gauze_def overpriced_entry_def sugg_def)
qed

theorem echoed_fields_witness:
  "\<exists>out p. process_gemini_response (JObj [(''items'', JArr [renamed_entry])]) [gauze] = Inr out
     \<and> out = JObj [(''items'', JArr [p])]
     \<and> subscript p ''currentCost'' = Inr (JNum 10)
     \<and> subscript p ''lastUsed'' = Inr (JStr ''never'')
     \<and> subscript p ''name'' = Inr (JStr ''Scalpel'')"
proof -
  let ?g = "JObj [(''items'', JArr [renamed_entry])]"
  have "\<exists>out. process_gemini_response ?g [gauze] = Inr out"
    by (simp add: eval_defs gauze_def renamed_entry_def)
  then obtain out where h: "process_gemini_response ?g [gauze] = Inr out" ..
  from echoed_fields [OF h] obtain iv entries ps where
      iv: "dict_get ?g ''items'' (JArr []) = Inr iv"
    and en: "py_iter iv = Inr entries"
    and out: "out = JObj [(''items'', JArr ps)]"
    and each: "\<forall>p\<in>set ps. \<exists>r\<in>set entries. \<exists>orig\<in>set [gauze].
                find_original [gauze] r = Inr (Some orig)
              \<and> subscript r ''itemId'' = Inr (JStr (itemId orig))
              \<and> subscript p ''itemId'' = Inr (JStr (itemId orig))
              \<and> subscript p ''currentCost'' = Inr (JNum (currentCost orig))
              \<and> subscript p ''lastUsed'' = Inr (opt_str (lastUsed orig))
              \<and> subscript p ''name'' = subscript r ''name''"
    by (elim exE conjE) (rule that)
  from iv en have entries: "entries = [renamed_entry]" by auto
  from h out have "ps = [JObj
       [(''itemId'', JStr ''A1''), (''name'', JStr ''Scalpel''),
        (''currentCost'', JNum 10), (''lastUsed'', JStr ''never''),
        (''neverUsedFlag'', JBool False), (''suggestions'', JArr []),
        (''removalSuggestion'', JObj
           [(''recommended'', JBool False), (''reason'', JNull),
            (''actionableCheckboxId'', JNull)])]]"
    by (simp add: eval_defs gauze_def renamed_entry_def)
  then obtain p where ps: "ps = [p]" by simp
  with each entries have
      "subscript p ''currentCost'' = Inr (JNum (currentCost gauze))"
      "subscript p ''lastUsed'' = Inr (opt_str (lastUsed gauze))"
      "subscript p ''name'' = subscript renamed_entry ''name''"
    by simp_all
  then have "subscript p ''currentCost'' = Inr (JNum 10)"
      "subscript p ''lastUsed'' = Inr (JStr ''never'')"
      "subscript p ''name'' = Inr (JStr ''Scalpel'')"
    by (simp_all add: gauze_def renamed_entry_def opt_str_def)
  with h out ps show ?thesis by (intro exI conjI) simp_all
qed

section \<open>Properties of the extractor\<close>

declare rmatch.simps [simp del] re_search.simps [simp del]

lemma take3_eq: "(take 3 s = [a, b, c]) = (\<exists>t. s = a # b # c # t)"
  by (cases s; cases "tl s"; cases "tl (tl s)") (auto simp: numeral_3_eq_3)

lemma isspace_simps [simp]:
  "\<not> isspace CHR ''`''" "\<not> isspace CHR ''{''" "\<not> isspace CHR ''j''"
  by (simp_all add: isspace_def)


























section \<open>Properties of the endpoint and of the summary\<close>

text \<open>
  Claim C6. The code at the inputs that break the claim: an empty item list and a list of
  51 items. Each \<^verbatim>\<open>HTTPException(status_code=400)\<close> is raised inside the \<^verbatim>\<open>try\<close>, is
  not a \<^verbatim>\<open>ValueError\<close>, and so reaches \<^verbatim>\<open>except Exception\<close>, which raises status 500 in
  its place. The provider is not called (the count is 0), as the claim says.
\<close>

theorem bounds_rejected_as_500:
  "generate_suggestions ev (request_of []) =
     (Inl (HTTPException 500 (''Internal server error: ''
             @ str_exn ev (HTTPException 400 ''No items provided for analysis''))), 0)
   \<and> generate_suggestions ev (request_of (replicate 51 gauze)) =
     (Inl (HTTPException 500 (''Internal server error: ''
             @ str_exn ev (HTTPException 400 ''Maximum 50 items per request''))), 0)
   \<and> status_code (fst (generate_suggestions ev (request_of []))) = 500
   \<and> status_code (fst (generate_suggestions ev (request_of (replicate 51 gauze)))) = 500"
  by (simp add: generate_suggestions_def try_body_def request_of_def)

lemma py_max_Max: "py_max x rest = Max (set (x # rest))"
proof -
  have "(\<lambda>a s. max s a) = (max :: rat \<Rightarrow> rat \<Rightarrow> rat)"
    by (intro ext) (rule max.commute)
  then have "foldl max x rest = fold max rest x"
    by (simp add: foldl_conv_fold)
  also have "\<dots> = Max (set (x # rest))"
    by (rule Max.set_eq_fold [symmetric])
  finally show ?thesis by (simp only: py_max_def)
qed

lemma priority_step_reasons: "priority_step acc item = acc @ priority_reasons item"
proof (cases "map costSavings (suggestions item)")
  case Nil
  then show ?thesis by (simp add: priority_step_def priority_reasons_def)
next
  case (Cons s rest)
  then have ne: "suggestions item \<noteq> []" by auto
  from Cons have "py_max s rest = Max (set (map costSavings (suggestions item)))"
    by (simp add: py_max_Max)
  with Cons ne show ?thesis
    by (simp add: priority_step_def priority_reasons_def Let_def)
qed

lemma foldl_priority_step:
  "foldl priority_step acc xs = acc @ concat (map priority_reasons xs)"
  by (induction xs arbitrary: acc) (simp_all add: priority_step_reasons)

lemma priority_items_concat: "priority_items xs = concat (map priority_reasons xs)"
  by (simp add: priority_items_def foldl_priority_step)

text \<open>
  Claim C8. The list the loop builds is the concatenation, over the analysed items in
  order, of one occurrence of the identifier when the largest \<open>costSavings\<close> of its
  suggestions exceeds 50 and one more when its removal is recommended; nothing removes
  duplicates, so an item with both reasons occurs twice. \<open>priorityItems\<close> of a response is
  the first five entries of that list.
\<close>

theorem priority_items_rule:
  assumes "generate_suggestions ev request = (Inr response, calls)"
  shows "priority_items (itemsAnalyzed response) = concat (map priority_reasons (itemsAnalyzed response))
       \<and> priorityItems (uiHints response) =
           take 5 (concat (map priority_reasons (itemsAnalyzed response)))
       \<and> priority_items [pricey_analysis] = [''B2'', ''B2'']"
proof -
  from assms obtain xs where
      "response = \<lparr>sr_spcId = spcId request,
                   sr_subGrid = subGrid request,
                   itemsAnalyzed = xs,
                   summary = build_summary_prompt xs,
                   uiHints = \<lparr>displayMode = ''panel'',
                              priorityItems = take 5 (priority_items xs),
                              pageSize = length xs\<rparr>\<rparr>"
    unfolding generate_suggestions_def try_body_def
    by (auto split: sum.splits if_splits prod.splits)
  then have "priorityItems (uiHints response) = take 5 (priority_items (itemsAnalyzed response))"
    by simp
  moreover have "priority_items [pricey_analysis] = [''B2'', ''B2'']"
    by (simp add: priority_items_def priority_step_def pricey_analysis_def py_max_def)
  ultimately show ?thesis by (simp add: priority_items_concat)
qed

lemmas endpoint_defs = generate_suggestions_def try_body_def service_generate_suggestions_def
  extract_json_def strip_def isspace_def

theorem priority_items_rule_witness:
  "\<exists>response. generate_suggestions (reply_env pricey_reply validate_pricey) (request_of [stapler])
                   = (Inr response, 1)
     \<and> itemsAnalyzed response = [pricey_analysis]
     \<and> priorityItems (uiHints response) = [''B2'', ''B2'']"
proof -
  have "\<exists>response. generate_suggestions (reply_env pricey_reply validate_pricey)
            (request_of [stapler]) = (Inr response, 1) \<and> itemsAnalyzed response = [pricey_analysis]"
    by (simp add: endpoint_defs eval_defs request_of_def reply_env_def pricey_reply_def stapler_def
        sugg_def validate_pricey_def)
  then obtain response where
      h: "generate_suggestions (reply_env pricey_reply validate_pricey) (request_of [stapler])
            = (Inr response, 1)"
    and xs: "itemsAnalyzed response = [pricey_analysis]"
    by (elim exE conjE)
  have pr: "priority_reasons pricey_analysis = [''B2'', ''B2'']"
    by (simp add: priority_reasons_def pricey_analysis_def)
  from priority_items_rule [OF h] have
      "priorityItems (uiHints response) =
         take 5 (concat (map priority_reasons (itemsAnalyzed response)))"
    by (elim conjE)
  with xs pr have "priorityItems (uiHints response) = [''B2'', ''B2'']" by simp
  with h xs show ?thesis by (intro exI conjI)
qed

declare str_nat.simps [simp del]







lemma subscript_error: "subscript j k = Inl e \<Longrightarrow> \<not> is_ValueError e"
  by (cases j) (auto split: option.splits)

lemma dict_get_error: "dict_get j k d = Inl e \<Longrightarrow> \<not> is_ValueError e"
  by (cases j) (auto split: option.splits)

lemma py_len_error: "py_len j = Inl e \<Longrightarrow> \<not> is_ValueError e"
  by (cases j) auto

lemma py_iter_error: "py_iter j = Inl e \<Longrightarrow> \<not> is_ValueError e"
  by (cases j) auto

lemma slice3_error: "slice3 j = Inl e \<Longrightarrow> \<not> is_ValueError e"
  by (cases j) auto

lemma num_of_error: "num_of j = Inl e \<Longrightarrow> \<not> is_ValueError e"
  by (cases j) auto

lemmas access_errors = subscript_error dict_get_error py_len_error py_iter_error slice3_error
  num_of_error

lemma find_original_error: "find_original os r = Inl e \<Longrightarrow> \<not> is_ValueError e"
  by (induction os) (auto split: sum.splits if_splits dest: subscript_error)

lemma process_suggestion_error: "process_suggestion cc s = Inl e \<Longrightarrow> \<not> is_ValueError e"
  unfolding process_suggestion_def Let_def
  by (auto split: sum.splits dest: access_errors)

lemma process_suggestions_error: "process_suggestions cc ss = Inl e \<Longrightarrow> \<not> is_ValueError e"
  by (induction ss arbitrary: e) (auto split: sum.splits dest: process_suggestion_error)

lemma process_item_error: "process_item os r = Inl e \<Longrightarrow> \<not> is_ValueError e"
  unfolding process_item_def Let_def
  by (auto split: sum.splits option.splits json.splits
      dest: access_errors find_original_error process_suggestions_error)

lemma process_items_error: "process_items os entries = Inl e \<Longrightarrow> \<not> is_ValueError e"
  by (induction entries arbitrary: e) (auto split: sum.splits option.splits dest: process_item_error)

lemma process_gemini_response_error:
  "process_gemini_response g os = Inl e \<Longrightarrow> \<not> is_ValueError e"
  unfolding process_gemini_response_def
  by (auto split: sum.splits dest: access_errors process_items_error)

lemma missing_field_fails:
  assumes "map_of kvs ''name'' = None \<or> map_of kvs ''estimatedCost'' = None
           \<or> map_of kvs ''rationale'' = None"
  shows "\<exists>e. process_suggestion cc (JObj kvs) = Inl e"
  using assms unfolding process_suggestion_def Let_def
  by (auto split: sum.splits option.splits)

lemma process_suggestions_fails:
  "s \<in> set ss \<Longrightarrow> process_suggestion cc s = Inl e \<Longrightarrow> \<exists>e'. process_suggestions cc ss = Inl e'"
  by (induction ss) (auto split: sum.splits)

lemma process_item_fails:
  assumes "find_original os r = Inr (Some orig)"
    and "dict_get r ''suggestions'' (JArr []) = Inr (JArr ss)"
    and "process_suggestions (currentCost orig) (take 3 ss) = Inl e"
  shows "process_item os r = Inl e"
  using assms unfolding process_item_def Let_def by simp

lemma process_items_fails:
  "r \<in> set entries \<Longrightarrow> process_item os r = Inl e \<Longrightarrow> \<exists>e'. process_items os entries = Inl e'"
  by (induction entries) (auto split: sum.splits option.splits)

lemma py_iter_len: "py_iter j = Inr xs \<Longrightarrow> \<exists>n. py_len j = Inr n"
  by (cases j) auto

lemma process_gemini_response_fails:
  assumes "dict_get g ''items'' (JArr []) = Inr iv" and "py_iter iv = Inr entries"
    and "process_items os entries = Inl e"
  shows "process_gemini_response g os = Inl e"
  using assms py_iter_len [OF assms(2)] unfolding process_gemini_response_def by auto

text \<open>
  Claim C7, amended. If a retained suggestion (one of the first three of a matched entry)
  lacks \<open>name\<close>, \<open>estimatedCost\<close> or \<open>rationale\<close>, the projector raises an error that is
  not a \<^verbatim>\<open>ValueError\<close>, and the request fails as a whole with status 500: no response
  is built, and no suggestion is dropped to let the rest through.
\<close>

theorem missing_field_is_server_error:
  assumes "items request \<noteq> []" and "length (items request) \<le> 50"
    and "call_gemini ev (items request) (subGrid request) (procedureType request)
           = Inr (candidate # others)"
    and "content_parts candidate = Some (raw_text # parts)"
    and "extract_json (json_loads ev) raw_text = Inr parsed"
    and "dict_get parsed ''items'' (JArr []) = Inr iv" and "py_iter iv = Inr entries"
    and "r \<in> set entries" and "find_original (items request) r = Inr (Some orig)"
    and "dict_get r ''suggestions'' (JArr []) = Inr (JArr ss)"
    and "JObj kvs \<in> set (take 3 ss)"
    and "map_of kvs ''name'' = None \<or> map_of kvs ''estimatedCost'' = None
         \<or> map_of kvs ''rationale'' = None"
  shows "\<exists>e. process_gemini_response parsed (items request) = Inl e
           \<and> \<not> is_ValueError e
           \<and> generate_suggestions ev request =
               (Inl (HTTPException 500 (''Internal server error: '' @ str_exn ev e)), 1)
           \<and> status_code (fst (generate_suggestions ev request)) = 500"
proof -
  from missing_field_fails [OF assms(12)] obtain e1 where
      "process_suggestion (currentCost orig) (JObj kvs) = Inl e1" ..
  from process_suggestions_fails [OF assms(11) this] obtain e2 where
      "process_suggestions (currentCost orig) (take 3 ss) = Inl e2" ..
  from process_item_fails [OF assms(9) assms(10) this] have
      "process_item (items request) r = Inl e2" .
  from process_items_fails [OF assms(8) this] obtain e where
      "process_items (items request) entries = Inl e" ..
  from process_gemini_response_fails [OF assms(6) assms(7) this] have
      p: "process_gemini_response parsed (items request) = Inl e" .
  then have ne: "\<not> is_ValueError e" by (rule process_gemini_response_error)
  from assms(3) assms(4) assms(5) p have
      "service_generate_suggestions ev (items request) (subGrid request) (procedureType request)
         = Inl e"
    by (simp add: service_generate_suggestions_def)
  with assms(1) assms(2) have "try_body ev request = (Inl e, 1)"
    by (simp add: try_body_def)
  with ne have g: "generate_suggestions ev request =
               (Inl (HTTPException 500 (''Internal server error: '' @ str_exn ev e)), 1)"
    by (simp add: generate_suggestions_def)
  then have "status_code (fst (generate_suggestions ev request)) = 500" by simp
  with p ne g show ?thesis by (intro exI conjI)
qed

text \<open>
  Claim C7, as stated, fails: the only suggestion of the reply has no rationale, the
  projector raises \<^verbatim>\<open>KeyError\<close>, and the endpoint answers with status 500, not with a
  4xx status.
\<close>

theorem missing_rationale_counterexample:
  "process_gemini_response no_rationale_reply [gauze] = Inl (KeyError ''rationale'')
   \<and> generate_suggestions (reply_env no_rationale_reply validate_pricey) (request_of [gauze]) =
       (Inl (HTTPException 500 (''Internal server error: '' @ ''error'')), 1)
   \<and> status_code (fst (generate_suggestions (reply_env no_rationale_reply validate_pricey)
                          (request_of [gauze]))) = 500"
  by (simp add: endpoint_defs eval_defs request_of_def reply_env_def no_rationale_reply_def
      no_rationale_entry_def gauze_def)

theorem missing_field_is_server_error_witness:
  "\<exists>e. process_gemini_response no_rationale_reply (items (request_of [gauze])) = Inl e
       \<and> \<not> is_ValueError e
       \<and> generate_suggestions (reply_env no_rationale_reply validate_pricey) (request_of [gauze]) =
           (Inl (HTTPException 500 (''Internal server error: ''
              @ str_exn (reply_env no_rationale_reply validate_pricey) e)), 1)
       \<and> status_code (fst (generate_suggestions (reply_env no_rationale_reply validate_pricey)
                              (request_of [gauze]))) = 500"
proof (rule missing_field_is_server_error)
  let ?ev = "reply_env no_rationale_reply validate_pricey" and ?rq = "request_of [gauze]"
  show "items ?rq \<noteq> []" by (simp add: request_of_def)
  show "length (items ?rq) \<le> 50" by (simp add: request_of_def)
  show "call_gemini ?ev (items ?rq) (subGrid ?rq) (procedureType ?rq)
          = Inr (\<lparr>content_parts = Some [''reply'']\<rparr> # [])"
    by (simp add: reply_env_def)
  show "content_parts \<lparr>content_parts = Some [''reply'']\<rparr> = Some (''reply'' # [])" by simp
  show "extract_json (json_loads ?ev) ''reply'' = Inr no_rationale_reply"
    by (simp add: reply_env_def extract_json_def strip_def isspace_def)
  show "dict_get no_rationale_reply ''items'' (JArr []) = Inr (JArr [no_rationale_entry])"
    by (simp add: no_rationale_reply_def)
  show "py_iter (JArr [no_rationale_entry]) = Inr [no_rationale_entry]" by simp
  show "no_rationale_entry \<in> set [no_rationale_entry]" by simp
  show "find_original (items ?rq) no_rationale_entry = Inr (Some gauze)"
    by (simp add: request_of_def no_rationale_entry_def gauze_def)
  show "dict_get no_rationale_entry ''suggestions'' (JArr []) =
          Inr (JArr [JObj [(''name'', JStr ''Generic Gauze''), (''estimatedCost'', JNum 6)]])"
    by (simp add: no_rationale_entry_def)
  show "JObj [(''name'', JStr ''Generic Gauze''), (''estimatedCost'', JNum 6)]
          \<in> set (take 3 [JObj [(''name'', JStr ''Generic Gauze''), (''estimatedCost'', JNum 6)]])"
    by simp
  show "map_of [(''name'', JStr ''Generic Gauze''), (''estimatedCost'', JNum 6)] ''name'' = None
        \<or> map_of [(''name'', JStr ''Generic Gauze''), (''estimatedCost'', JNum 6)] ''estimatedCost'' = None
        \<or> map_of [(''name'', JStr ''Generic Gauze''), (''estimatedCost'', JNum 6)] ''rationale'' = None"
    by simp
qed

end
